theory Spec2Isabelle
  imports Complex_Main
begin

section \<open>numpy float64 values\<close>

text \<open>
  The elements of the coordinate arrays are float64 values: a finite number, one of the
  two infinities, or NaN. A finite value is written as the real number it is. The result
  of an operation on finite values is the float64 value of the exact result, given by a
  rounding function that is a parameter of the model: the nearest float64, or an infinity
  on overflow. The special values follow IEEE 754 as numpy applies it to arrays, where a
  division by zero yields an infinity or NaN (with a RuntimeWarning) and never raises.
  Signed zeros are not told apart.
\<close>

datatype npfloat = Fin real | PInf | NInf | NaN

type_synonym rounding = "real \<Rightarrow> npfloat"

fun isnan :: "npfloat \<Rightarrow> bool" where
  "isnan NaN = True"
| "isnan _ = False"

fun isfinite :: "npfloat \<Rightarrow> bool" where
  "isfinite (Fin _) = True"
| "isfinite _ = False"

fun fneg :: "npfloat \<Rightarrow> npfloat" where
  "fneg (Fin a) = Fin (- a)"
| "fneg PInf = NInf"
| "fneg NInf = PInf"
| "fneg NaN = NaN"

fun fadd :: "rounding \<Rightarrow> npfloat \<Rightarrow> npfloat \<Rightarrow> npfloat" where
  "fadd fl NaN _ = NaN"
| "fadd fl _ NaN = NaN"
| "fadd fl (Fin a) (Fin b) = fl (a + b)"
| "fadd fl PInf NInf = NaN"
| "fadd fl NInf PInf = NaN"
| "fadd fl PInf _ = PInf"
| "fadd fl _ PInf = PInf"
| "fadd fl NInf _ = NInf"
| "fadd fl _ NInf = NInf"

definition fsub :: "rounding \<Rightarrow> npfloat \<Rightarrow> npfloat \<Rightarrow> npfloat" where
  "fsub fl a b = fadd fl a (fneg b)"

fun fmul :: "rounding \<Rightarrow> npfloat \<Rightarrow> npfloat \<Rightarrow> npfloat" where
  "fmul fl NaN _ = NaN"
| "fmul fl _ NaN = NaN"
| "fmul fl (Fin a) (Fin b) = fl (a * b)"
| "fmul fl (Fin a) PInf = (if a = 0 then NaN else if 0 < a then PInf else NInf)"
| "fmul fl (Fin a) NInf = (if a = 0 then NaN else if 0 < a then NInf else PInf)"
| "fmul fl PInf (Fin b) = (if b = 0 then NaN else if 0 < b then PInf else NInf)"
| "fmul fl NInf (Fin b) = (if b = 0 then NaN else if 0 < b then NInf else PInf)"
| "fmul fl PInf PInf = PInf"
| "fmul fl PInf NInf = NInf"
| "fmul fl NInf PInf = NInf"
| "fmul fl NInf NInf = PInf"

fun fdiv :: "rounding \<Rightarrow> npfloat \<Rightarrow> npfloat \<Rightarrow> npfloat" where
  "fdiv fl NaN _ = NaN"
| "fdiv fl _ NaN = NaN"
| "fdiv fl (Fin a) (Fin b) =
     (if b \<noteq> 0 then fl (a / b)
      else if a = 0 then NaN
      else if 0 < a then PInf else NInf)"
| "fdiv fl (Fin a) PInf = Fin 0"
| "fdiv fl (Fin a) NInf = Fin 0"
| "fdiv fl PInf (Fin b) = (if 0 \<le> b then PInf else NInf)"
| "fdiv fl NInf (Fin b) = (if 0 \<le> b then NInf else PInf)"
| "fdiv fl PInf PInf = NaN"
| "fdiv fl PInf NInf = NaN"
| "fdiv fl NInf PInf = NaN"
| "fdiv fl NInf NInf = NaN"

text \<open>\<^verbatim>\<open>np.sum\<close> over one axis, accumulated from the first element on.\<close>

definition fsum :: "rounding \<Rightarrow> npfloat list \<Rightarrow> npfloat" where
  "fsum fl xs = foldl (fadd fl) (Fin 0) xs"




section \<open>Data model of \<^verbatim>\<open>make_dotprops\<close>\<close>

datatype pyerror =
  ValueError | TypeError | ImportError | IndexError | ZeroDivisionError | AttributeError
  | UndefinedUnitError

text \<open>
  A numpy array as the function inspects it: either two-dimensional, with its number of
  columns (\<^verbatim>\<open>shape[1]\<close>) and its rows, or of another number of dimensions.
\<close>

datatype ndarray = Array2 nat "npfloat list list" | ArrayOther

text \<open>
  The declared type of \<^verbatim>\<open>resample\<close> is \<^verbatim>\<open>Union[float, int, bool, str]\<close>, and None is
  accepted. Every value of this type passes the call
  \<^verbatim>\<open>utils.eval_param(resample, allowed_types=(numbers.Number, type(None), str))\<close>.
\<close>

datatype resample = RFloat real | RInt int | RBool bool | RStr string | RNone

fun truthy :: "resample \<Rightarrow> bool" where
  "truthy (RFloat r) = (r \<noteq> 0)"
| "truthy (RInt i) = (i \<noteq> 0)"
| "truthy (RBool b) = b"
| "truthy (RStr s) = (s \<noteq> [])"
| "truthy RNone = False"

record node =
  node_id :: int
  parent_id :: int
  node_x :: npfloat
  node_y :: npfloat
  node_z :: npfloat

text \<open>The type \<open>'q\<close> stands for pint's unit objects, which this function only passes on.\<close>

record 'q treeneuron =
  tn_units :: 'q
  tn_name :: string
  tn_id :: int
  tn_nodes :: "node list"

record 'q meshneuron =
  mn_units :: 'q
  mn_name :: string
  mn_id :: int
  mn_vertices :: ndarray

text \<open>
  The argument \<^verbatim>\<open>x\<close> of one call: a DataFrame (its columns in order, each with its
  name), a TreeNeuron, a MeshNeuron, a numpy array, or a value of any other type.
\<close>

datatype 'q source =
    DataFrame "(string \<times> npfloat list) list"
  | Tree "'q treeneuron"
  | Mesh "'q meshneuron"
  | NdArray ndarray
  | Unsupported

text \<open>The dictionary \<^verbatim>\<open>properties\<close>, whose keys are units, name, id and k.\<close>

record 'q properties =
  pr_units :: "'q option"
  pr_name :: "string option"
  pr_id :: "int option"
  pr_k :: "int option"

definition no_properties :: "'q properties" where
  "no_properties = \<lparr>pr_units = None, pr_name = None, pr_id = None, pr_k = None\<rparr>"

record 'q dotprops =
  dp_points :: "npfloat list list"
  dp_vect :: "npfloat list list"
  dp_length :: "npfloat list option"
  dp_alpha :: "npfloat list option"
  dp_k :: "int option"
  dp_units :: "'q option"
  dp_name :: "string option"
  dp_id :: "int option"

text \<open>
  The rounding to float64, and the collaborators outside this module, taken as parameters
  and assumed to return: \<^verbatim>\<open>TreeNeuron.resample\<close>, \<^verbatim>\<open>graph.neuron2tangents\<close>,
  \<^verbatim>\<open>trimesh.points.remove_close\<close>, the index array of \<^verbatim>\<open>cKDTree(x).query(x, k)\<close>
  for k of at least 1 (one row of neighbour indices per point; scipy answers the index N
  for a neighbour that is missing) and \<^verbatim>\<open>np.linalg.svd\<close> of one 3x3 matrix (u, the
  three singular values, and the three rows of vh).
\<close>

record 'q dp_env =
  float64 :: rounding
  tree_resample :: "'q treeneuron \<Rightarrow> resample \<Rightarrow> 'q treeneuron"
  neuron2tangents :: "'q treeneuron \<Rightarrow> npfloat list list \<times> npfloat list list \<times> npfloat list"
  remove_close :: "ndarray \<Rightarrow> resample \<Rightarrow> ndarray"
  kdtree_query :: "npfloat list list \<Rightarrow> int \<Rightarrow> nat list list"
  svd :: "npfloat list list \<Rightarrow>
          npfloat list list \<times> (npfloat \<times> npfloat \<times> npfloat) \<times>
          (npfloat list \<times> npfloat list \<times> npfloat list)"

section \<open>\<^verbatim>\<open>make_dotprops\<close>\<close>

text \<open>\<^verbatim>\<open>x[['x', 'y', 'z']].values\<close>: the columns with these names, as an (N, c) array.\<close>

definition frame_values :: "(string \<times> npfloat list) list \<Rightarrow> string list \<Rightarrow> ndarray" where
  "frame_values cols names =
     (let sel = concat (map (\<lambda>n. map snd (filter (\<lambda>c. fst c = n) cols)) names)
      in Array2 (length sel) (transpose sel))"

definition node_coords :: "'q treeneuron \<Rightarrow> npfloat list list" where
  "node_coords t = map (\<lambda>n. [node_x n, node_y n, node_z n]) (tn_nodes t)"

text \<open>\<^verbatim>\<open>isinstance(k, type(None)) or k <= 0\<close>\<close>

fun k_none_or_nonpositive :: "int option \<Rightarrow> bool" where
  "k_none_or_nonpositive None = True"
| "k_none_or_nonpositive (Some k) = (k \<le> 0)"

text \<open>\<^verbatim>\<open>x[~np.any(np.isnan(x), axis=1)]\<close>\<close>

definition drop_nan_rows :: "npfloat list list \<Rightarrow> npfloat list list" where
  "drop_nan_rows x = filter (\<lambda>r. \<not> list_ex isnan r) x"

text \<open>
  Shapes. \<^verbatim>\<open>tree.query(x, k)\<close> returns index arrays of shape (N, k), and scipy squeezes
  the last axis when k is the integer 1. Indexing the (N, 3) array \<^verbatim>\<open>x\<close> with an index
  array appends the axis of length 3; \<^verbatim>\<open>np.mean(pt, axis=1)\<close> removes axis 1; and
  \<^verbatim>\<open>reshape\<close> raises ValueError unless the old and new shapes have the same size.
\<close>

definition query_shape :: "nat \<Rightarrow> int \<Rightarrow> nat list" where
  "query_shape n k = (if k = 1 then [n] else [n, nat k])"

definition mean_axis1_shape :: "nat list \<Rightarrow> nat list" where
  "mean_axis1_shape shp = take 1 shp @ drop 2 shp"

definition reshape_ok :: "nat list \<Rightarrow> nat list \<Rightarrow> bool" where
  "reshape_ok old new = (prod_list old = prod_list new)"

text \<open>Column \<open>a\<close> of a list of points, and the steps of lines 148 to 162 for one point.\<close>

definition column :: "nat \<Rightarrow> npfloat list list \<Rightarrow> npfloat list" where
  "column a pts = map (\<lambda>p. p ! a) pts"

text \<open>
  \<^verbatim>\<open>np.mean(pt, axis=1)\<close> for one neighbourhood: the sum of each coordinate over the
  neighbours, in their order, divided by their number.
\<close>

definition center :: "rounding \<Rightarrow> npfloat list list \<Rightarrow> npfloat list" where
  "center fl nb =
     map (\<lambda>a. fdiv fl (fsum fl (column a nb)) (Fin (real (length nb)))) [0, 1, 2]"

text \<open>\<^verbatim>\<open>pt - centers.reshape((N, 1, 3))\<close> for one neighbourhood.\<close>

definition centered :: "rounding \<Rightarrow> npfloat list list \<Rightarrow> npfloat list list" where
  "centered fl nb = map (\<lambda>p. map2 (fsub fl) p (center fl nb)) nb"

text \<open>
  \<^verbatim>\<open>cpt.transpose((0, 2, 1)) @ cpt\<close> for one neighbourhood: a 3x3 matrix of sums of
  products, taken in the order of the neighbours.
\<close>

definition inertia :: "rounding \<Rightarrow> npfloat list list \<Rightarrow> npfloat list list" where
  "inertia fl cpt =
     map (\<lambda>a. map (\<lambda>b. fsum fl (map2 (fmul fl) (column a cpt) (column b cpt))) [0, 1, 2])
       [0, 1, 2]"

text \<open>\<^verbatim>\<open>(s[:, 0] - s[:, 1]) / np.sum(s, axis=1)\<close> for one point.\<close>

fun alpha_of :: "rounding \<Rightarrow> npfloat \<times> npfloat \<times> npfloat \<Rightarrow> npfloat" where
  "alpha_of fl (s0, s1, s2) = fdiv fl (fsub fl s0 s1) (fsum fl [s0, s1, s2])"

text \<open>\<^verbatim>\<open>vh[:, 0, :]\<close> for one point.\<close>

fun vect_of :: "npfloat list \<times> npfloat list \<times> npfloat list \<Rightarrow> npfloat list" where
  "vect_of (v0, v1, v2) = v0"


text \<open>
  Lines 132 to 164, from the cleaned array on: the effective k, the neighbour query, and
  the tangent vector and alpha of every point. The query raises ValueError for k below 1,
  which is the effective k when the cleaning leaves no row.
\<close>

definition effective_k :: "npfloat list list \<Rightarrow> int \<Rightarrow> int" where
  "effective_k x k = min (int (length x)) k"

definition knn_dotprops ::
  "'q dp_env \<Rightarrow> 'q properties \<Rightarrow> npfloat list list \<Rightarrow> int \<Rightarrow> pyerror + 'q dotprops" where
  "knn_dotprops env props x k =
     (let props = props\<lparr>pr_k := Some k\<rparr>;
          ix = kdtree_query env x k;
          pt_shape = query_shape (length x) k @ [3]
      in if k < 1 then Inl ValueError
         else if \<not> list_all (list_all (\<lambda>j. j < length x)) ix then Inl IndexError
         else if \<not> reshape_ok (mean_axis1_shape pt_shape) [hd pt_shape, 1, 3] then Inl ValueError
         else
           let pt = map (map (\<lambda>j. x ! j)) ix;
               dec = map (\<lambda>nb. svd env (inertia (float64 env) (centered (float64 env) nb))) pt;
               vect = map (\<lambda>(u, s, vh). vect_of vh) dec;
               alpha = map (\<lambda>(u, s, vh). alpha_of (float64 env) s) dec
           in Inr \<lparr>dp_points = x, dp_vect = vect, dp_length = None, dp_alpha = Some alpha,
                   dp_k = pr_k props, dp_units = pr_units props, dp_name = pr_name props,
                   dp_id = pr_id props\<rparr>)"

text \<open>Lines 125 to 141: the shape check, the check of k, and the cleaning of the rows.\<close>

definition points_to_dotprops ::
  "'q dp_env \<Rightarrow> 'q properties \<Rightarrow> ndarray \<Rightarrow> int option \<Rightarrow> pyerror + 'q dotprops" where
  "points_to_dotprops env props x k =
     (case x of
        ArrayOther \<Rightarrow> Inl ValueError
      | Array2 c rows \<Rightarrow>
          if c \<noteq> 3 then Inl ValueError
          else (case k of
                  None \<Rightarrow> Inl ValueError
                | Some k' \<Rightarrow>
                    if k' \<le> 0 then Inl ValueError
                    else knn_dotprops env props (drop_nan_rows rows)
                           (effective_k (drop_nan_rows rows) k')))"

text \<open>Lines 100 to 123: the dispatch on the type of \<^verbatim>\<open>x\<close>, for a single object.\<close>

fun make_dotprops ::
  "'q dp_env \<Rightarrow> 'q source \<Rightarrow> int option \<Rightarrow> resample \<Rightarrow> pyerror + 'q dotprops" where
  "make_dotprops env (DataFrame cols) k rs =
     (if \<not> list_all (\<lambda>n. n \<in> set (map fst cols)) [''x'', ''y'', ''z''] then Inl ValueError
      else points_to_dotprops env no_properties (frame_values cols [''x'', ''y'', ''z'']) k)"
| "make_dotprops env (Tree t) k rs =
     (let t = (if truthy rs then tree_resample env t rs else t);
          props = \<lparr>pr_units = Some (tn_units t), pr_name = Some (tn_name t),
                   pr_id = Some (tn_id t), pr_k = None\<rparr>
      in if k_none_or_nonpositive k then
           (case neuron2tangents env t of
              (points, vect, len) \<Rightarrow>
                Inr \<lparr>dp_points = points, dp_vect = vect, dp_length = Some len, dp_alpha = None,
                     dp_k = None, dp_units = pr_units props, dp_name = pr_name props,
                     dp_id = pr_id props\<rparr>)
         else points_to_dotprops env props (Array2 3 (node_coords t)) k)"
| "make_dotprops env (Mesh m) k rs =
     (let props = \<lparr>pr_units = Some (mn_units m), pr_name = Some (mn_name m),
                   pr_id = Some (mn_id m), pr_k = None\<rparr>;
          x = mn_vertices m;
          x = (if truthy rs then remove_close env x rs else x)
      in points_to_dotprops env props x k)"
| "make_dotprops env (NdArray a) k rs = points_to_dotprops env no_properties a k"
| "make_dotprops env Unsupported k rs = Inl TypeError"

text \<open>
  Lines 92 to 98: a NeuronList is converted neuron by neuron, in order; the first failure
  propagates.
\<close>

fun make_dotprops_neuronlist ::
  "'q dp_env \<Rightarrow> 'q source list \<Rightarrow> int option \<Rightarrow> resample \<Rightarrow> pyerror + 'q dotprops list" where
  "make_dotprops_neuronlist env [] k rs = Inr []"
| "make_dotprops_neuronlist env (n # ns) k rs =
     (case make_dotprops env n k rs of
        Inl e \<Rightarrow> Inl e
      | Inr d \<Rightarrow>
          (case make_dotprops_neuronlist env ns k rs of
             Inl e \<Rightarrow> Inl e
           | Inr ds \<Rightarrow> Inr (d # ds)))"

section \<open>\<^verbatim>\<open>to_neuron_space\<close>\<close>

text \<open>
  The argument \<^verbatim>\<open>units\<close>, and the value returned: a plain number, a string, or a pint
  object (a Quantity or a Unit, of the opaque type \<open>'q\<close>).
\<close>

datatype 'q pyunits = Number real | Str string | Pint 'q

text \<open>The neuron, of which the function reads \<^verbatim>\<open>neuron.units\<close> only.\<close>

record 'q baseneuron =
  bn_units :: 'q

text \<open>
  The collaborators: \<^verbatim>\<open>pint.Quantity(str)\<close>, the attributes \<^verbatim>\<open>dimensionless\<close> and
  \<^verbatim>\<open>magnitude\<close>, the method \<^verbatim>\<open>to\<close>, and \<^verbatim>\<open>utils.round_smart\<close>. All but
  \<^verbatim>\<open>dimensionless\<close> can raise: a string may not parse, a pint Unit has neither a
  magnitude nor a method \<^verbatim>\<open>to\<close>, units may be incompatible, and \<^verbatim>\<open>round_smart\<close> refuses
  some numbers.
\<close>

record 'q pint_env =
  pint_quantity :: "string \<Rightarrow> pyerror + 'q"
  dimensionless :: "'q \<Rightarrow> bool"
  magnitude :: "'q \<Rightarrow> pyerror + real"
  pint_to :: "'q \<Rightarrow> 'q \<Rightarrow> pyerror + 'q"
  round_smart :: "real \<Rightarrow> pyerror + real"

text \<open>
  Modelled from the spec: \<^verbatim>\<open>utils.eval_param(on_error, allowed_values=('ignore', 'raise'))\<close>
  is not among the sources; the spec has "any other value is a validation error".
\<close>

definition eval_param_on_error :: "string \<Rightarrow> bool" where
  "eval_param_on_error on_error = (on_error = ''ignore'' \<or> on_error = ''raise'')"

text \<open>
  Lines 224 to 245, for a pint object. The magnitudes are divided as numbers; a zero
  magnitude of the neuron's units raises ZeroDivisionError.
\<close>

definition pint_to_neuron_space ::
  "'q pint_env \<Rightarrow> 'q \<Rightarrow> 'q baseneuron \<Rightarrow> string \<Rightarrow> pyerror + 'q pyunits" where
  "pint_to_neuron_space env units neuron on_error =
     (if dimensionless env (bn_units neuron) then
        (if on_error = ''raise'' then Inl ValueError else Inr (Pint units))
      else if dimensionless env units then
        (case magnitude env units of Inl e \<Rightarrow> Inl e | Inr m \<Rightarrow> Inr (Number m))
      else
        (case pint_to env units (bn_units neuron) of
           Inl e \<Rightarrow> Inl e
         | Inr units \<Rightarrow>
             (case magnitude env units of
                Inl e \<Rightarrow> Inl e
              | Inr m \<Rightarrow>
                  (case magnitude env (bn_units neuron) of
                     Inl e \<Rightarrow> Inl e
                   | Inr mn \<Rightarrow>
                       if mn = 0 then Inl ZeroDivisionError
                       else (case round_smart env (m / mn) of
                               Inl e \<Rightarrow> Inl e
                             | Inr mag \<Rightarrow> Inr (Number mag))))))"

text \<open>Lines 213 to 222: the check of \<^verbatim>\<open>on_error\<close> and the dispatch on the type of \<^verbatim>\<open>units\<close>.\<close>

definition to_neuron_space ::
  "'q pint_env \<Rightarrow> 'q pyunits \<Rightarrow> 'q baseneuron \<Rightarrow> string \<Rightarrow> pyerror + 'q pyunits" where
  "to_neuron_space env units neuron on_error =
     (if \<not> eval_param_on_error on_error then Inl ValueError
      else (case units of
              Str s \<Rightarrow>
                (case pint_quantity env s of
                   Inl e \<Rightarrow> Inl e
                 | Inr q \<Rightarrow> pint_to_neuron_space env q neuron on_error)
            | Number n \<Rightarrow> Inr (Number n)
            | Pint q \<Rightarrow> pint_to_neuron_space env q neuron on_error))"

section \<open>\<^verbatim>\<open>NeuronProcessor\<close>\<close>

text \<open>
  Python values as the processor handles them: arguments, results, and the members of the
  neuron list (of type \<open>'n\<close>).
\<close>

datatype 'n pyval =
    PNone
  | PBool bool
  | PInt int
  | PStr string
  | PList "'n pyval list"
  | PNeuron 'n
  | PNeuronList "'n list"

fun py_truthy :: "'n pyval \<Rightarrow> bool" where
  "py_truthy PNone = False"
| "py_truthy (PBool b) = b"
| "py_truthy (PInt i) = (i \<noteq> 0)"
| "py_truthy (PStr s) = (s \<noteq> [])"
| "py_truthy (PList xs) = (xs \<noteq> [])"
| "py_truthy (PNeuron n) = True"
| "py_truthy (PNeuronList ns) = (ns \<noteq> [])"

text \<open>
  Modelled from the spec: \<^verbatim>\<open>utils.is_iterable\<close> is not among the sources; the spec has
  the predicate "is this a sequence distinct from a scalar". Lists and neuron lists are
  the sequences; None, booleans, numbers, strings and single neurons are not.
\<close>

fun is_iterable :: "'n pyval \<Rightarrow> bool" where
  "is_iterable (PList xs) = True"
| "is_iterable (PNeuronList ns) = True"
| "is_iterable _ = False"

text \<open>\<^verbatim>\<open>len(a)\<close> and \<^verbatim>\<open>a[i]\<close>, which the processor applies to sequences only and with an
  index below the length.\<close>

fun py_len :: "'n pyval \<Rightarrow> nat" where
  "py_len (PList xs) = length xs"
| "py_len (PNeuronList ns) = length ns"
| "py_len (PStr s) = length s"
| "py_len _ = 0"

fun py_getitem :: "'n pyval \<Rightarrow> nat \<Rightarrow> 'n pyval" where
  "py_getitem (PList xs) i = xs ! i"
| "py_getitem (PNeuronList ns) i = PNeuron (ns ! i)"
| "py_getitem v i = v"

text \<open>A callable: positional arguments and keyword arguments to a result or an exception.\<close>

type_synonym 'n pyfunc = "'n pyval list \<Rightarrow> (string \<rightharpoonup> 'n pyval) \<Rightarrow> pyerror + 'n pyval"

datatype 'n function_arg = Callable "'n pyfunc" | Callables "'n pyfunc list" | NotCallable

record 'n neuron_processor =
  np_nl :: "'n list"
  np_funcs :: "'n pyfunc list"
  np_function :: "'n pyfunc"
  np_desc :: "string option"
  np_parallel :: bool
  np_n_cores :: "'n pyval"
  np_chunksize :: "'n pyval"
  np_progress :: bool
  np_warn_inplace :: bool

text \<open>Lines 255 to 285. \<^verbatim>\<open>function[0]\<close> of an empty list raises IndexError.\<close>

definition neuron_processor_init ::
  "'n list \<Rightarrow> 'n function_arg \<Rightarrow> bool \<Rightarrow> 'n pyval \<Rightarrow> 'n pyval \<Rightarrow> bool \<Rightarrow> bool \<Rightarrow>
   string option \<Rightarrow> pyerror + 'n neuron_processor" where
  "neuron_processor_init nl function parallel n_cores chunksize progress warn_inplace desc =
     (let mk = (\<lambda>fs f. \<lparr>np_nl = nl, np_funcs = fs, np_function = f, np_desc = desc,
                         np_parallel = parallel, np_n_cores = n_cores,
                         np_chunksize = chunksize, np_progress = progress,
                         np_warn_inplace = warn_inplace\<rparr>)
      in case function of
           Callables fs \<Rightarrow>
             if length fs \<noteq> length nl then Inl ValueError
             else (case fs of [] \<Rightarrow> Inl IndexError | f # _ \<Rightarrow> Inr (mk fs f))
         | Callable f \<Rightarrow> Inr (mk (replicate (length nl) f) f)
         | NotCallable \<Rightarrow> Inl TypeError)"

text \<open>
  The logger \<^verbatim>\<open>config.logger\<close>: its own level (0 is NOTSET), the effective level of its
  parent, and the number of warnings it has emitted.
\<close>

record logger =
  lg_level :: nat
  lg_parent_level :: nat
  lg_warnings :: nat

definition WARNING :: nat where
  "WARNING = 30"

definition getEffectiveLevel :: "logger \<Rightarrow> nat" where
  "getEffectiveLevel lg = (if lg_level lg \<noteq> 0 then lg_level lg else lg_parent_level lg)"

definition setLevel :: "logger \<Rightarrow> nat \<Rightarrow> logger" where
  "setLevel lg l = lg\<lparr>lg_level := l\<rparr>"

definition warning :: "logger \<Rightarrow> logger" where
  "warning lg = (if getEffectiveLevel lg \<le> WARNING then lg\<lparr>lg_warnings := lg_warnings lg + 1\<rparr>
                 else lg)"

text \<open>Lines 301 to 305 and 307 to 311: the value of one argument for item \<open>i\<close> of \<open>n\<close>.\<close>

definition parsed_arg :: "nat \<Rightarrow> 'n pyval \<Rightarrow> nat \<Rightarrow> 'n pyval" where
  "parsed_arg n a i = (if \<not> is_iterable a \<or> py_len a \<noteq> n then a else py_getitem a i)"

text \<open>Lines 289 to 311: \<^verbatim>\<open>parsed_args\<close> and \<^verbatim>\<open>parsed_kwargs\<close>, one entry per neuron; the
  keywords \<^verbatim>\<open>parallel\<close> and \<^verbatim>\<open>n_cores\<close> have been popped before.\<close>

definition popped_kwargs :: "(string \<rightharpoonup> 'n pyval) \<Rightarrow> (string \<rightharpoonup> 'n pyval)" where
  "popped_kwargs kwargs = kwargs(''parallel'' := None, ''n_cores'' := None)"

definition parsed_args :: "'n neuron_processor \<Rightarrow> 'n pyval list \<Rightarrow> 'n pyval list list" where
  "parsed_args self args =
     map (\<lambda>i. map (\<lambda>a. parsed_arg (length (np_nl self)) a i) args) [0..<length (np_nl self)]"

definition parsed_kwargs ::
  "'n neuron_processor \<Rightarrow> (string \<rightharpoonup> 'n pyval) \<Rightarrow> (string \<rightharpoonup> 'n pyval) list" where
  "parsed_kwargs self kwargs =
     map (\<lambda>i. (\<lambda>k. map_option (\<lambda>v. parsed_arg (length (np_nl self)) v i)
                     (popped_kwargs kwargs k)))
       [0..<length (np_nl self)]"

text \<open>The results of the calls in order, or the first exception.\<close>

fun collect :: "(pyerror + 'a) list \<Rightarrow> pyerror + 'a list" where
  "collect [] = Inr []"
| "collect (Inl e # rs) = Inl e"
| "collect (Inr v # rs) = (case collect rs of Inl e \<Rightarrow> Inl e | Inr vs \<Rightarrow> Inr (v # vs))"

text \<open>\<^verbatim>\<open>_call\<close>, lines 363 to 366.\<close>

fun call_combination ::
  "'n pyfunc \<times> 'n pyval list \<times> (string \<rightharpoonup> 'n pyval) \<Rightarrow> pyerror + 'n pyval" where
  "call_combination (func, args, kwargs) = func args kwargs"

text \<open>
  Modelled from the spec: \<^verbatim>\<open>utils.unpack_neurons\<close> is not among the sources; the spec has
  "flattening of heterogeneous neuron/collection results into one list".
\<close>

fun unpack_neurons :: "'n pyval list \<Rightarrow> 'n list" where
  "unpack_neurons [] = []"
| "unpack_neurons (PNeuron n # rs) = n # unpack_neurons rs"
| "unpack_neurons (PNeuronList ns # rs) = ns @ unpack_neurons rs"
| "unpack_neurons (_ # rs) = unpack_neurons rs"

fun is_neuron :: "'n pyval \<Rightarrow> bool" where
  "is_neuron (PNeuron n) = True"
| "is_neuron (PNeuronList ns) = True"
| "is_neuron _ = False"

text \<open>Lines 352 to 360.\<close>

definition assemble :: "'n pyval list \<Rightarrow> 'n pyval" where
  "assemble res =
     (if list_all is_neuron res then PNeuronList (unpack_neurons res)
      else if list_all (\<lambda>r. r = PNone) res then PNone
      else PList res)"

text \<open>
  Lines 287 to 360. \<open>pool\<close> says whether \<^verbatim>\<open>ProcessingPool\<close> was imported; the logger is
  passed in and returned with the outcome. The pool yields the results in the order of the
  items, so the parallel branch differs from the sequential one in the function it calls
  per item (\<^verbatim>\<open>self.funcs[i]\<close> instead of \<^verbatim>\<open>self.function\<close>). The number of cores, the
  chunk size and the progress bar change no result and no level, and are left out.
\<close>

definition neuron_processor_call ::
  "bool \<Rightarrow> 'n neuron_processor \<Rightarrow> 'n pyval list \<Rightarrow> (string \<rightharpoonup> 'n pyval) \<Rightarrow> logger \<Rightarrow>
   (pyerror + 'n pyval) \<times> logger" where
  "neuron_processor_call pool self args kwargs lg =
     (let parallel = (case kwargs ''parallel'' of None \<Rightarrow> np_parallel self
                      | Some v \<Rightarrow> py_truthy v);
          pargs = parsed_args self args;
          pkwargs = parsed_kwargs self kwargs;
          level = getEffectiveLevel lg;
          lg = setLevel lg WARNING
      in if parallel then
           if \<not> pool then (Inl ImportError, lg)
           else
             let lg = (if np_warn_inplace self \<and>
                          (case popped_kwargs kwargs ''inplace'' of None \<Rightarrow> False
                           | Some v \<Rightarrow> py_truthy v)
                       then warning lg else lg)
             in (case collect (map call_combination (zip (np_funcs self) (zip pargs pkwargs))) of
                   Inl e \<Rightarrow> (Inl e, lg)
                 | Inr res \<Rightarrow> (Inr (assemble res), setLevel lg level))
         else
           (case collect (map (\<lambda>i. np_function self (pargs ! i) (pkwargs ! i))
                            [0..<length (np_nl self)]) of
              Inl e \<Rightarrow> (Inl e, lg)
            | Inr res \<Rightarrow> (Inr (assemble res), setLevel lg level)))"

section \<open>Collaborators of the examples\<close>

text \<open>
  The closed examples below fix the parameters. Their coordinates are such that every sum,
  difference, product and quotient of lines 151 to 162 is a float64 value, which rounding
  leaves as it is. The neighbours of a point are all the points, which is what the query
  returns (up to the order within a row) when k equals the number of points, with the
  index N where a coordinate of the point or of the neighbour is not finite. The
  decomposition is the one of a diagonal matrix with a non-negative, descending diagonal:
  the identity for u and vh and the diagonal for the singular values. The examples produce
  only such matrices.
\<close>

definition all_points_query :: "npfloat list list \<Rightarrow> int \<Rightarrow> nat list list" where
  "all_points_query x k =
     map (\<lambda>p. map (\<lambda>j. if list_all isfinite p \<and> list_all isfinite (x ! j) then j
                         else length x) [0..<nat k]) x"

definition svd_descending_diagonal ::
  "npfloat list list \<Rightarrow>
     npfloat list list \<times> (npfloat \<times> npfloat \<times> npfloat) \<times>
     (npfloat list \<times> npfloat list \<times> npfloat list)" where
  "svd_descending_diagonal m =
     ([[Fin 1, Fin 0, Fin 0], [Fin 0, Fin 1, Fin 0], [Fin 0, Fin 0, Fin 1]],
      (m ! 0 ! 0, m ! 1 ! 1, m ! 2 ! 2),
      ([Fin 1, Fin 0, Fin 0], [Fin 0, Fin 1, Fin 0], [Fin 0, Fin 0, Fin 1]))"

definition example_env :: "string dp_env" where
  "example_env =
     \<lparr>float64 = Fin,
      tree_resample = (\<lambda>t rs. t),
      neuron2tangents = (\<lambda>t. (node_coords t, map (\<lambda>n. [Fin 1, Fin 0, Fin 0]) (tn_nodes t),
                               map (\<lambda>n. Fin 1) (tn_nodes t))),
      remove_close = (\<lambda>x rs. x),
      kdtree_query = all_points_query,
      svd = svd_descending_diagonal\<rparr>"

text \<open>
  A stand-in for pint with quantities as pairs of a magnitude and a unit name: it parses
  the one string of the examples, converts between quantities of the same unit, and
  leaves a magnitude other than zero unrounded.
\<close>

definition example_pint :: "(real \<times> string) pint_env" where
  "example_pint =
     \<lparr>pint_quantity = (\<lambda>s. if s = ''1 nanometer'' then Inr (1, ''nanometer'')
                           else Inl UndefinedUnitError),
      dimensionless = (\<lambda>q. snd q = ''dimensionless''),
      magnitude = (\<lambda>q. Inr (fst q)),
      pint_to = (\<lambda>q target. if snd q = snd target then Inr q else Inl ValueError),
      round_smart = (\<lambda>r. if r = 0 then Inl ValueError else Inr r)\<rparr>"

text \<open>
  Item functions of the examples: one returns the arguments it received (and the values of
  the given keywords, or a marker for an absent keyword), the other raises.
\<close>

definition echo :: "string list \<Rightarrow> 'n pyfunc" where
  "echo keys args kwargs =
     Inr (PList (args @ map (\<lambda>k. case kwargs k of None \<Rightarrow> PStr ''absent'' | Some v \<Rightarrow> v) keys))"

definition failing :: "'n pyfunc" where
  "failing args kwargs = Inl ValueError"

definition example_processor :: "string pyfunc \<Rightarrow> bool \<Rightarrow> string neuron_processor" where
  "example_processor f par =
     \<lparr>np_nl = [''n0'', ''n1'', ''n2''], np_funcs = [f, f, f], np_function = f, np_desc = None,
      np_parallel = par, np_n_cores = PInt 2, np_chunksize = PInt 1, np_progress = True,
      np_warn_inplace = True\<rparr>"

definition example_logger :: logger where
  "example_logger = \<lparr>lg_level = 20, lg_parent_level = 30, lg_warnings = 0\<rparr>"

section \<open>Properties of \<^verbatim>\<open>make_dotprops\<close>\<close>

lemmas example_eval =
  points_to_dotprops_def drop_nan_rows_def effective_k_def knn_dotprops_def
  example_env_def all_points_query_def query_shape_def mean_axis1_shape_def reshape_ok_def
  Let_def no_properties_def svd_descending_diagonal_def inertia_def centered_def center_def
  column_def fsub_def fsum_def

lemma points_to_dotprops_rejects_k:
  "k_none_or_nonpositive k \<Longrightarrow> points_to_dotprops env props x k = Inl ValueError"
  by (cases k) (auto simp: points_to_dotprops_def split: ndarray.splits)

lemma knn_dotprops_result:
  "knn_dotprops env props x k = Inr dp \<Longrightarrow>
     dp_points dp = x \<and> dp_k dp = Some k \<and> dp_units dp = pr_units props"
  by (auto simp: knn_dotprops_def Let_def split: if_splits)

lemma points_to_dotprops_result:
  assumes "points_to_dotprops env props x k = Inr dp"
  shows "\<exists>rows k'. x = Array2 3 rows \<and> k = Some k' \<and> 0 < k' \<and>
           dp_points dp = drop_nan_rows rows \<and>
           dp_k dp = Some (effective_k (drop_nan_rows rows) k')"
  using assms
  by (auto simp: points_to_dotprops_def split: ndarray.splits if_splits option.splits
           dest: knn_dotprops_result)

lemma make_dotprops_knn_result:
  assumes "make_dotprops env src (Some k) rs = Inr dp" and "0 < k"
  shows "\<exists>rows. dp_points dp = drop_nan_rows rows \<and>
           dp_k dp = Some (effective_k (drop_nan_rows rows) k)"
proof (cases src)
  case (DataFrame cols)
  with assms show ?thesis
    by (auto split: if_splits dest!: points_to_dotprops_result)
next
  case (Tree t)
  with assms show ?thesis
    by (auto simp: Let_def split: if_splits dest!: points_to_dotprops_result)
next
  case (Mesh m)
  with assms show ?thesis
    by (auto simp: Let_def split: if_splits dest!: points_to_dotprops_result)
next
  case (NdArray a)
  with assms show ?thesis
    by (auto dest!: points_to_dotprops_result)
next
  case Unsupported
  with assms show ?thesis by simp
qed

lemma drop_nan_rows_no_nan: "list_all (list_all (\<lambda>v. \<not> isnan v)) (drop_nan_rows x)"
  by (induction x) (auto simp: drop_nan_rows_def list_all_iff list_ex_iff)


text \<open>
  C7: a DataFrame, an array or a MeshNeuron with \<^verbatim>\<open>k\<close> None or not positive is refused
  with a ValueError: every check on the way to line 128 raises ValueError as well, and
  line 128 raises it for whatever passed them.
\<close>

theorem non_tree_input_requires_positive_k:
  assumes "k_none_or_nonpositive k"
  shows "make_dotprops env (DataFrame cols) k rs = Inl ValueError
       \<and> make_dotprops env (NdArray a) k rs = Inl ValueError
       \<and> make_dotprops env (Mesh m) k rs = Inl ValueError"
  using assms by (simp add: points_to_dotprops_rejects_k Let_def)

theorem non_tree_input_requires_positive_k_witness:
  "k_none_or_nonpositive (Some 0) \<and> k_none_or_nonpositive None
   \<and> make_dotprops example_env
        (DataFrame [(''x'', [Fin 1]), (''y'', [Fin 2]), (''z'', [Fin 3])]) None RNone
      = Inl ValueError
   \<and> make_dotprops example_env (NdArray (Array2 3 [[Fin 1, Fin 2, Fin 3]])) (Some 0) RNone
      = Inl ValueError
   \<and> make_dotprops example_env
        (Mesh \<lparr>mn_units = ''8 nanometer'', mn_name = ''mesh'', mn_id = 7,
               mn_vertices = Array2 3 [[Fin 1, Fin 2, Fin 3]]\<rparr>) (Some (- 1)) RNone
      = Inl ValueError"
proof -
  have none: "k_none_or_nonpositive None" and zero: "k_none_or_nonpositive (Some 0)"
    and neg: "k_none_or_nonpositive (Some (- 1))"
    by simp_all
  note inst = non_tree_input_requires_positive_k [where env = example_env and rs = RNone
      and cols = "[(''x'', [Fin 1]), (''y'', [Fin 2]), (''z'', [Fin 3])]"
      and a = "Array2 3 [[Fin 1, Fin 2, Fin 3]]"
      and m = "\<lparr>mn_units = ''8 nanometer'', mn_name = ''mesh'', mn_id = 7,
                 mn_vertices = Array2 3 [[Fin 1, Fin 2, Fin 3]]\<rparr>"]
  from inst [OF none] inst [OF zero] inst [OF neg] none zero
  show ?thesis by blast
qed

text \<open>
  C3, as the code has it: on the k-NN path the rows that contain a NaN are dropped (line
  133 tests \<^verbatim>\<open>np.isnan\<close> only), so the points of the returned Dotprops contain no NaN,
  and for an array input they are exactly the rows without NaN, in order.
\<close>

theorem nan_rows_dropped_before_query:
  assumes "make_dotprops env src (Some k) rs = Inr dp" and "0 < k"
  shows "list_all (list_all (\<lambda>v. \<not> isnan v)) (dp_points dp)
       \<and> (\<forall>rows. src = NdArray (Array2 3 rows) \<longrightarrow>
            dp_points dp = filter (\<lambda>r. \<not> list_ex isnan r) rows
            \<and> make_dotprops env src (Some k) rs =
                knn_dotprops env no_properties (filter (\<lambda>r. \<not> list_ex isnan r) rows)
                  (min (int (length (filter (\<lambda>r. \<not> list_ex isnan r) rows))) k))"
proof -
  from make_dotprops_knn_result [OF assms] obtain rows
    where "dp_points dp = drop_nan_rows rows" by blast
  then have "list_all (list_all (\<lambda>v. \<not> isnan v)) (dp_points dp)"
    by (simp add: drop_nan_rows_no_nan)
  moreover have "dp_points dp = filter (\<lambda>r. \<not> list_ex isnan r) rows'"
    if "src = NdArray (Array2 3 rows')" for rows'
    using assms that
    by (auto simp: drop_nan_rows_def dest!: points_to_dotprops_result)
  moreover have "make_dotprops env src (Some k) rs =
      knn_dotprops env no_properties (filter (\<lambda>r. \<not> list_ex isnan r) rows')
        (min (int (length (filter (\<lambda>r. \<not> list_ex isnan r) rows'))) k)"
    if "src = NdArray (Array2 3 rows')" for rows'
    using assms(2) that
    by (simp add: points_to_dotprops_def drop_nan_rows_def effective_k_def)
  ultimately show ?thesis by blast
qed

theorem nan_rows_dropped_before_query_witness:
  "make_dotprops example_env
     (NdArray (Array2 3 [[Fin 0, Fin 0, Fin 0], [Fin 1, NaN, Fin 0], [Fin 1, Fin 0, Fin 0]]))
     (Some 2) RNone =
   Inr \<lparr>dp_points = [[Fin 0, Fin 0, Fin 0], [Fin 1, Fin 0, Fin 0]],
        dp_vect = [[Fin 1, Fin 0, Fin 0], [Fin 1, Fin 0, Fin 0]],
        dp_length = None, dp_alpha = Some [Fin 1, Fin 1], dp_k = Some 2,
        dp_units = None, dp_name = None, dp_id = None\<rparr>
   \<and> list_all (list_all (\<lambda>v. \<not> isnan v))
        [[Fin 0, Fin 0, Fin 0], [Fin 1, Fin 0, Fin 0]]"
proof -
  have run: "make_dotprops example_env
     (NdArray (Array2 3 [[Fin 0, Fin 0, Fin 0], [Fin 1, NaN, Fin 0], [Fin 1, Fin 0, Fin 0]]))
     (Some 2) RNone =
   Inr \<lparr>dp_points = [[Fin 0, Fin 0, Fin 0], [Fin 1, Fin 0, Fin 0]],
        dp_vect = [[Fin 1, Fin 0, Fin 0], [Fin 1, Fin 0, Fin 0]],
        dp_length = None, dp_alpha = Some [Fin 1, Fin 1], dp_k = Some 2,
        dp_units = None, dp_name = None, dp_id = None\<rparr>"
    by (simp add: example_eval upt_rec)
  from nan_rows_dropped_before_query [OF run] show ?thesis
    using run by simp
qed

text \<open>
  C3 as stated fails: a row with an infinite coordinate is not dropped, and the array
  handed to the neighbour query and the decomposition contains it.
\<close>

theorem infinite_row_reaches_query:
  "make_dotprops example_env
     (NdArray (Array2 3 [[Fin 0, Fin 0, Fin 0], [Fin 1, NaN, Fin 0], [PInf, Fin 0, Fin 0]]))
     (Some 2) RNone =
   knn_dotprops example_env no_properties [[Fin 0, Fin 0, Fin 0], [PInf, Fin 0, Fin 0]] 2
   \<and> \<not> list_all (list_all isfinite) [[Fin 0, Fin 0, Fin 0], [PInf, Fin 0, Fin 0]]"
  by (simp add: points_to_dotprops_def drop_nan_rows_def effective_k_def)


text \<open>
  C5: with N >= 1 cleaned points and a requested k > N the effective k is N, the rest of
  the function runs with N, and the result depends on the neighbour query only through
  its answer for N neighbours of the cleaned points.
\<close>

theorem effective_k_is_point_count:
  assumes "x = drop_nan_rows rows" and "1 \<le> length x" and "int (length x) < k"
  shows "effective_k x k = int (length x)
       \<and> points_to_dotprops env props (Array2 3 rows) (Some k) =
           knn_dotprops env props x (int (length x))
       \<and> make_dotprops env (NdArray (Array2 3 rows)) (Some k) rs =
           knn_dotprops env no_properties x (int (length x))
       \<and> (\<forall>q. q x (int (length x)) = kdtree_query env x (int (length x)) \<longrightarrow>
             make_dotprops (env\<lparr>kdtree_query := q\<rparr>) (NdArray (Array2 3 rows)) (Some k) rs =
             make_dotprops env (NdArray (Array2 3 rows)) (Some k) rs)"
proof -
  have k_eff: "effective_k x k = int (length x)"
    using assms by (simp add: effective_k_def)
  have pos: "0 < k"
    using assms by linarith
  have run: "points_to_dotprops e p (Array2 3 rows) (Some k) =
               knn_dotprops e p x (int (length x))"
    for e :: "'a dp_env" and p :: "'a properties"
    using assms(1) pos k_eff by (simp add: points_to_dotprops_def)
  have "knn_dotprops (env\<lparr>kdtree_query := q\<rparr>) no_properties x (int (length x)) =
        knn_dotprops env no_properties x (int (length x))"
    if "q x (int (length x)) = kdtree_query env x (int (length x))" for q
    using that by (simp add: knn_dotprops_def Let_def)
  with k_eff run show ?thesis by simp
qed

theorem effective_k_is_point_count_witness:
  "[[Fin 0, Fin 0, Fin 0], [Fin 1, Fin 0, Fin 0]] =
     drop_nan_rows [[Fin 0, Fin 0, Fin 0], [NaN, NaN, NaN], [Fin 1, Fin 0, Fin 0]]
   \<and> effective_k [[Fin 0, Fin 0, Fin 0], [Fin 1, Fin 0, Fin 0]] 20 = 2
   \<and> make_dotprops example_env
        (NdArray (Array2 3 [[Fin 0, Fin 0, Fin 0], [NaN, NaN, NaN], [Fin 1, Fin 0, Fin 0]]))
        (Some 20) RNone =
      knn_dotprops example_env no_properties [[Fin 0, Fin 0, Fin 0], [Fin 1, Fin 0, Fin 0]] 2"
proof -
  have clean: "[[Fin 0, Fin 0, Fin 0], [Fin 1, Fin 0, Fin 0]] =
     drop_nan_rows [[Fin 0, Fin 0, Fin 0], [NaN, NaN, NaN], [Fin 1, Fin 0, Fin 0]]"
    by (simp add: drop_nan_rows_def)
  from effective_k_is_point_count [OF clean, where k = 20 and env = example_env
      and rs = RNone and props = no_properties]
  show ?thesis by (simp add: drop_nan_rows_def)
qed

text \<open>
  C10: when the function returns a Dotprops with N points for a requested k > N, the k it
  records is N and not the requested k; the points are the cleaned rows.
\<close>

theorem recorded_k_is_effective_k:
  assumes "make_dotprops env src (Some k) rs = Inr dp"
    and "int (length (dp_points dp)) < k"
  shows "dp_k dp = Some (int (length (dp_points dp))) \<and> dp_k dp \<noteq> Some k
       \<and> (\<exists>rows. dp_points dp = drop_nan_rows rows)"
proof -
  have pos: "0 < k"
    using assms(2) by linarith
  from make_dotprops_knn_result [OF assms(1) pos] obtain rows
    where pts: "dp_points dp = drop_nan_rows rows"
      and k: "dp_k dp = Some (effective_k (drop_nan_rows rows) k)"
    by blast
  from pts assms(2) have "effective_k (drop_nan_rows rows) k = int (length (dp_points dp))"
    by (simp add: effective_k_def)
  with k pts assms(2) show ?thesis by auto
qed

theorem recorded_k_is_effective_k_witness:
  "make_dotprops example_env
     (Mesh \<lparr>mn_units = ''8 nanometer'', mn_name = ''mesh'', mn_id = 7,
            mn_vertices = Array2 3 [[Fin 0, Fin 0, Fin 0], [Fin 1, Fin 0, Fin 0]]\<rparr>)
     (Some 20) RNone =
   Inr \<lparr>dp_points = [[Fin 0, Fin 0, Fin 0], [Fin 1, Fin 0, Fin 0]],
        dp_vect = [[Fin 1, Fin 0, Fin 0], [Fin 1, Fin 0, Fin 0]],
        dp_length = None, dp_alpha = Some [Fin 1, Fin 1], dp_k = Some 2,
        dp_units = Some ''8 nanometer'', dp_name = Some ''mesh'', dp_id = Some 7\<rparr>
   \<and> int (length [[Fin 0, Fin 0, Fin 0], [Fin (1::real), Fin 0, Fin 0]]) < 20"
proof -
  have run: "make_dotprops example_env
     (Mesh \<lparr>mn_units = ''8 nanometer'', mn_name = ''mesh'', mn_id = 7,
            mn_vertices = Array2 3 [[Fin 0, Fin 0, Fin 0], [Fin 1, Fin 0, Fin 0]]\<rparr>)
     (Some 20) RNone =
   Inr \<lparr>dp_points = [[Fin 0, Fin 0, Fin 0], [Fin 1, Fin 0, Fin 0]],
        dp_vect = [[Fin 1, Fin 0, Fin 0], [Fin 1, Fin 0, Fin 0]],
        dp_length = None, dp_alpha = Some [Fin 1, Fin 1], dp_k = Some 2,
        dp_units = Some ''8 nanometer'', dp_name = Some ''mesh'', dp_id = Some 7\<rparr>"
    by (simp add: example_eval upt_rec)
  from recorded_k_is_effective_k [OF run] show ?thesis
    using run by simp
qed

text \<open>
  C6: a TreeNeuron with \<^verbatim>\<open>k\<close> None or not positive returns at line 112 the points,
  vectors and lengths of \<^verbatim>\<open>graph.neuron2tangents\<close> with alpha and k None; the result is
  the same whatever the neighbour query and the decomposition are, so neither is used.
\<close>

theorem tree_without_k_is_terminal:
  assumes "k_none_or_nonpositive k"
  shows "\<exists>dp. make_dotprops env (Tree t) k rs = Inr dp
          \<and> dp_alpha dp = None \<and> dp_k dp = None
          \<and> (dp_points dp, dp_vect dp, dp_length dp) =
              (case neuron2tangents env (if truthy rs then tree_resample env t rs else t) of
                 (p, v, l) \<Rightarrow> (p, v, Some l))
          \<and> make_dotprops (env\<lparr>kdtree_query := q, svd := d\<rparr>) (Tree t) k rs = Inr dp"
  using assms by (auto simp: Let_def split: prod.splits)

theorem tree_without_k_is_terminal_witness:
  "k_none_or_nonpositive (Some 0)
   \<and> (\<exists>dp. make_dotprops example_env
         (Tree \<lparr>tn_units = ''8 nanometer'', tn_name = ''skeleton'', tn_id = 1,
                tn_nodes = [\<lparr>node_id = 1, parent_id = -1, node_x = Fin 0, node_y = Fin 0, node_z = Fin 0\<rparr>,
                            \<lparr>node_id = 2, parent_id = 1, node_x = Fin 2, node_y = Fin 0, node_z = Fin 0\<rparr>]\<rparr>)
         (Some 0) RNone = Inr dp \<and> dp_alpha dp = None \<and> dp_k dp = None)"
  using tree_without_k_is_terminal [where k = "Some 0" and env = example_env and rs = RNone
         and q = "\<lambda>x k. []" and d = svd_descending_diagonal and t =
         "\<lparr>tn_units = ''8 nanometer'', tn_name = ''skeleton'', tn_id = 1,
           tn_nodes = [\<lparr>node_id = 1, parent_id = -1, node_x = Fin 0, node_y = Fin 0, node_z = Fin 0\<rparr>,
                       \<lparr>node_id = 2, parent_id = 1, node_x = Fin 2, node_y = Fin 0, node_z = Fin 0\<rparr>]\<rparr>"]
  by auto

section \<open>The tangent vector and alpha of one point\<close>



lemma foldl_fadd_zeros:
  assumes "fl 0 = Fin 0"
  shows "foldl (fadd fl) (Fin 0) (replicate n (Fin 0)) = Fin 0"
  using assms by (induction n) simp_all

lemma fsum_zeros:
  assumes "fl 0 = Fin 0"
  shows "fsum fl (replicate n (Fin 0)) = Fin 0"
  using assms by (simp add: fsum_def foldl_fadd_zeros)

lemma column_replicate: "column a (replicate n p) = replicate n (p ! a)"
  by (simp add: column_def)

lemma map_constant: "\<forall>j\<in>set js. f j = c \<Longrightarrow> map f js = replicate (length js) c"
  by (induction js) simp_all

lemma centered_identical:
  assumes "fl 0 = Fin 0" and "center fl (replicate n [Fin a, Fin b, Fin c]) = [Fin a, Fin b, Fin c]"
  shows "centered fl (replicate n [Fin a, Fin b, Fin c]) = replicate n [Fin 0, Fin 0, Fin 0]"
  using assms by (simp add: centered_def fsub_def)

lemma inertia_zero:
  assumes "fl 0 = Fin 0"
  shows "inertia fl (replicate n [Fin 0, Fin 0, Fin 0]) =
     [[Fin 0, Fin 0, Fin 0], [Fin 0, Fin 0, Fin 0], [Fin 0, Fin 0, Fin 0]]"
proof -
  have "map2 (fmul fl) (replicate n (Fin 0)) (replicate n (Fin 0)) = replicate n (Fin 0)"
    using assms by (induction n) simp_all
  then show ?thesis
    using assms by (simp add: inertia_def column_replicate fsum_zeros)
qed

lemma degenerate_inertia:
  assumes "fl 0 = Fin 0" and "nbrs \<noteq> []"
    and "\<forall>j\<in>set nbrs. x ! j = [Fin a, Fin b, Fin c]"
    and "center fl (map (\<lambda>j. x ! j) nbrs) = [Fin a, Fin b, Fin c]"
  shows "inertia fl (centered fl (map (\<lambda>j. x ! j) nbrs)) =
           [[Fin 0, Fin 0, Fin 0], [Fin 0, Fin 0, Fin 0], [Fin 0, Fin 0, Fin 0]]"
proof -
  have same: "map (\<lambda>j. x ! j) nbrs = replicate (length nbrs) [Fin a, Fin b, Fin c]"
    using assms(3) by (rule map_constant)
  with assms(4) have "center fl (replicate (length nbrs) [Fin a, Fin b, Fin c]) =
      [Fin a, Fin b, Fin c]"
    by simp
  from centered_identical [OF assms(1) this] same assms(1) show ?thesis
    by (simp add: inertia_zero)
qed


lemma reshape_ok_effective_k:
  assumes "k \<noteq> 1"
  shows "reshape_ok (mean_axis1_shape (query_shape n k @ [3])) [hd (query_shape n k @ [3]), 1, 3]"
  using assms by (simp add: reshape_ok_def mean_axis1_shape_def query_shape_def)

lemma knn_dotprops_returns:
  assumes "2 \<le> k" and "list_all (list_all (\<lambda>j. j < length x)) (kdtree_query env x k)"
  shows "\<exists>dp. knn_dotprops env props x k = Inr dp
          \<and> dp_alpha dp = Some (map (\<lambda>nbrs. alpha_of (float64 env) (fst (snd (svd env
                 (inertia (float64 env) (centered (float64 env) (map (\<lambda>j. x ! j) nbrs)))))))
               (kdtree_query env x k))
          \<and> dp_vect dp = map (\<lambda>nbrs. vect_of (snd (snd (svd env
                 (inertia (float64 env) (centered (float64 env) (map (\<lambda>j. x ! j) nbrs)))))))
               (kdtree_query env x k)"
proof -
  from assms(1) have "k \<noteq> 1" and "\<not> k < 1" by simp_all
  with assms(2) reshape_ok_effective_k [of k "length x"] show ?thesis
    by (simp add: knn_dotprops_def Let_def split_def comp_def)
qed

text \<open>
  C1, as the code has it: let the effective k be at least 2 and the indices of the query
  in range, let the neighbours of a point all have the same finite coordinates, and let
  \<^verbatim>\<open>np.mean\<close> return these coordinates as their centre, as it does when the sum and its
  division are exact. Then the inertia matrix of the point is the zero matrix, the
  function returns, and the alpha of the point is the NaN of the division 0/0 at line
  162. Zero is a float64 value, and the singular values of the zero matrix are taken to
  be zero, as they are for every decomposition of it.
\<close>

theorem degenerate_neighbourhood_alpha_is_nan:
  assumes "x = drop_nan_rows rows" and "ke = effective_k x k" and "2 \<le> ke"
    and "ix = kdtree_query env x ke"
    and "list_all (list_all (\<lambda>j. j < length x)) ix"
    and "i < length ix" and "ix ! i \<noteq> []"
    and "\<forall>j\<in>set (ix ! i). x ! j = [Fin a, Fin b, Fin c]"
    and "center (float64 env) (map (\<lambda>j. x ! j) (ix ! i)) = [Fin a, Fin b, Fin c]"
    and "float64 env 0 = Fin 0"
    and "fst (snd (svd env [[Fin 0, Fin 0, Fin 0], [Fin 0, Fin 0, Fin 0], [Fin 0, Fin 0, Fin 0]]))
           = (Fin 0, Fin 0, Fin 0)"
  shows "\<exists>dp alpha. make_dotprops env (NdArray (Array2 3 rows)) (Some k) rs = Inr dp
           \<and> dp_alpha dp = Some alpha \<and> length alpha = length ix \<and> alpha ! i = NaN"
proof -
  let ?fl = "float64 env"
  from assms(2,3) have pos: "0 < k"
    by (simp add: effective_k_def)
  have run: "make_dotprops env (NdArray (Array2 3 rows)) (Some k) rs =
               knn_dotprops env no_properties x ke"
    using assms(1,2) pos by (simp add: points_to_dotprops_def)
  from knn_dotprops_returns [of ke x env no_properties] assms(3-5)
  obtain dp where dp: "knn_dotprops env no_properties x ke = Inr dp"
    and alpha: "dp_alpha dp = Some (map (\<lambda>nbrs. alpha_of ?fl (fst (snd (svd env
                 (inertia ?fl (centered ?fl (map (\<lambda>j. x ! j) nbrs))))))) ix)"
    by auto
  have "inertia ?fl (centered ?fl (map (\<lambda>j. x ! j) (ix ! i))) =
          [[Fin 0, Fin 0, Fin 0], [Fin 0, Fin 0, Fin 0], [Fin 0, Fin 0, Fin 0]]"
    using assms(10,7,8,9) by (rule degenerate_inertia)
  with assms(6,10,11) have "map (\<lambda>nbrs. alpha_of ?fl (fst (snd (svd env
                 (inertia ?fl (centered ?fl (map (\<lambda>j. x ! j) nbrs))))))) ix ! i = NaN"
    by (simp add: fsub_def fsum_def)
  with run dp alpha show ?thesis by simp
qed

theorem degenerate_neighbourhood_alpha_is_nan_witness:
  "make_dotprops example_env
      (NdArray (Array2 3 [[Fin 1, Fin 2, Fin 3], [Fin 1, Fin 2, Fin 3], [Fin 1, Fin 2, Fin 3]]))
      (Some 20) RNone =
     Inr \<lparr>dp_points = [[Fin 1, Fin 2, Fin 3], [Fin 1, Fin 2, Fin 3], [Fin 1, Fin 2, Fin 3]],
          dp_vect = [[Fin 1, Fin 0, Fin 0], [Fin 1, Fin 0, Fin 0], [Fin 1, Fin 0, Fin 0]],
          dp_length = None, dp_alpha = Some [NaN, NaN, NaN], dp_k = Some 3,
          dp_units = None, dp_name = None, dp_id = None\<rparr>
   \<and> center (float64 example_env)
        [[Fin 1, Fin 2, Fin 3], [Fin 1, Fin 2, Fin 3], [Fin 1, Fin 2, Fin 3]] =
      [Fin 1, Fin 2, Fin 3]"
proof -
  let ?rows = "[[Fin 1, Fin 2, Fin 3], [Fin 1, Fin 2, Fin 3], [Fin 1, Fin 2, Fin 3]]"
  have x: "?rows = drop_nan_rows ?rows"
    by (simp add: drop_nan_rows_def)
  have ke: "(3::int) = effective_k ?rows 20"
    by (simp add: effective_k_def)
  have ix: "[[0, 1, 2], [0, 1, 2], [0, 1, 2]] = kdtree_query example_env ?rows 3"
    by (simp add: example_env_def all_points_query_def upt_rec)
  have centre: "center (float64 example_env) ?rows = [Fin 1, Fin 2, Fin 3]"
    by (simp add: example_env_def center_def column_def fsum_def)
  have fl: "float64 example_env 0 = Fin 0"
    by (simp add: example_env_def)
  have zero: "fst (snd (svd example_env
        [[Fin 0, Fin 0, Fin 0], [Fin 0, Fin 0, Fin 0], [Fin 0, Fin 0, Fin 0]]))
           = (Fin 0, Fin 0, Fin 0)"
    by (simp add: example_env_def svd_descending_diagonal_def)
  have nan: "\<exists>dp alpha. make_dotprops example_env (NdArray (Array2 3 ?rows)) (Some 20) RNone = Inr dp
           \<and> dp_alpha dp = Some alpha \<and> length alpha = 3 \<and> alpha ! i = NaN"
    if "i < 3" for i
    using degenerate_neighbourhood_alpha_is_nan [OF x ke _ ix _ _ _ _ _ fl zero,
        where i = i and a = 1 and b = 2 and c = 3 and rs = RNone] that centre
    by (auto simp: less_Suc_eq numeral_3_eq_3)
  have run: "make_dotprops example_env (NdArray (Array2 3 ?rows)) (Some 20) RNone =
     Inr \<lparr>dp_points = ?rows,
          dp_vect = [[Fin 1, Fin 0, Fin 0], [Fin 1, Fin 0, Fin 0], [Fin 1, Fin 0, Fin 0]],
          dp_length = None, dp_alpha = Some [NaN, NaN, NaN], dp_k = Some 3,
          dp_units = None, dp_name = None, dp_id = None\<rparr>"
    by (simp add: example_eval upt_rec)
  from nan [of 0] nan [of 1] nan [of 2] run centre show ?thesis by simp
qed

text \<open>
  C1 as stated fails: the alpha of three copies of the origin is NaN and not 0; and a
  single point, whose only neighbour is the point itself, makes the function raise
  ValueError at the reshape of line 154.
\<close>

theorem degenerate_neighbourhood_alpha_not_zero:
  "make_dotprops example_env
      (NdArray (Array2 3 [[Fin 0, Fin 0, Fin 0], [Fin 0, Fin 0, Fin 0], [Fin 0, Fin 0, Fin 0]]))
      (Some 3) RNone =
     Inr \<lparr>dp_points = [[Fin 0, Fin 0, Fin 0], [Fin 0, Fin 0, Fin 0], [Fin 0, Fin 0, Fin 0]],
          dp_vect = [[Fin 1, Fin 0, Fin 0], [Fin 1, Fin 0, Fin 0], [Fin 1, Fin 0, Fin 0]],
          dp_length = None, dp_alpha = Some [NaN, NaN, NaN], dp_k = Some 3,
          dp_units = None, dp_name = None, dp_id = None\<rparr>
   \<and> [NaN, NaN, NaN] \<noteq> [Fin 0, Fin 0, Fin 0]
   \<and> make_dotprops example_env (NdArray (Array2 3 [[Fin 0, Fin 0, Fin 0]])) (Some 20) RNone =
     Inl ValueError"
  by (simp add: example_eval upt_rec)





section \<open>Properties of \<^verbatim>\<open>to_neuron_space\<close>\<close>

text \<open>
  Against a neuron with dimensionless units, \<^verbatim>\<open>on_error="raise"\<close> raises ValueError for a
  pint object and for a string that parses; \<^verbatim>\<open>on_error="ignore"\<close> returns a pint object
  unchanged, and for a string the pint Quantity that line 219 has made of it.
\<close>

lemma dimensionless_target:
  assumes "dimensionless env (bn_units neuron)"
  shows "to_neuron_space env (Pint q) neuron ''raise'' = Inl ValueError
       \<and> to_neuron_space env (Pint q) neuron ''ignore'' = Inr (Pint q)
       \<and> (pint_quantity env s = Inr q' \<longrightarrow>
            to_neuron_space env (Str s) neuron ''raise'' = Inl ValueError
            \<and> to_neuron_space env (Str s) neuron ''ignore'' = Inr (Pint q'))"
  using assms
  by (simp add: to_neuron_space_def pint_to_neuron_space_def eval_param_on_error_def)

lemma dimensionless_target_example:
  "to_neuron_space example_pint (Pint (1, ''nanometer''))
        \<lparr>bn_units = (1, ''dimensionless'')\<rparr> ''raise'' = Inl ValueError
   \<and> to_neuron_space example_pint (Str ''1 nanometer'')
        \<lparr>bn_units = (1, ''dimensionless'')\<rparr> ''raise'' = Inl ValueError
   \<and> to_neuron_space example_pint (Pint (1, ''nanometer''))
        \<lparr>bn_units = (1, ''dimensionless'')\<rparr> ''ignore'' = Inr (Pint (1, ''nanometer''))"
  by (simp add: to_neuron_space_def pint_to_neuron_space_def eval_param_on_error_def
      example_pint_def)

text \<open>
  C8 holds on the code for a pint object, and for a string with \<^verbatim>\<open>on_error="raise"\<close>. For a
  string with \<^verbatim>\<open>on_error="ignore"\<close> the code misses what the claim and the docstring ("If
  "ignore" will simply return units unchanged") say: line 219 has replaced the string by
  the Quantity parsed from it before the check of line 224, so that for the string
  "1 nanometer" the Quantity of 1 nanometer comes back and not the string.
\<close>

theorem string_is_returned_parsed:
  "to_neuron_space example_pint (Str ''1 nanometer'') \<lparr>bn_units = (1, ''dimensionless'')\<rparr> ''ignore''
     = Inr (Pint (1, ''nanometer''))
   \<and> to_neuron_space example_pint (Str ''1 nanometer'') \<lparr>bn_units = (1, ''dimensionless'')\<rparr> ''ignore''
     \<noteq> Inr (Str ''1 nanometer'')"
  by (simp add: to_neuron_space_def pint_to_neuron_space_def eval_param_on_error_def
      example_pint_def)

text \<open>The first example of the docstring, with neuron units of 8 nanometer.\<close>

lemma docstring_example:
  "to_neuron_space example_pint (Str ''1 nanometer'') \<lparr>bn_units = (8, ''nanometer'')\<rparr> ''raise''
     = Inr (Number 0.125)"
  by (simp add: to_neuron_space_def pint_to_neuron_space_def eval_param_on_error_def
      example_pint_def)

section \<open>Properties of \<^verbatim>\<open>NeuronProcessor\<close>\<close>

lemma warning_level: "lg_level (warning lg) = lg_level lg"
  and warning_parent: "lg_parent_level (warning lg) = lg_parent_level lg"
  by (simp_all add: warning_def)

lemma call_logger_cases:
  assumes "neuron_processor_call pool self args kwargs lg = (outcome, lg')"
  shows "lg_parent_level lg' = lg_parent_level lg
       \<and> lg_level lg' = (case outcome of Inl e \<Rightarrow> WARNING | Inr r \<Rightarrow> getEffectiveLevel lg)"
  using assms
  by (auto simp: neuron_processor_call_def Let_def setLevel_def warning_level warning_parent
           split: if_splits sum.splits option.splits)

lemmas processor_eval =
  neuron_processor_call_def parsed_args_def parsed_kwargs_def parsed_arg_def popped_kwargs_def
  example_processor_def example_logger_def echo_def failing_def assemble_def
  getEffectiveLevel_def setLevel_def warning_def WARNING_def Let_def

text \<open>
  When the call returns, line 350 has set the level to the effective level saved at line
  314, so the effective level is the one before the call; when the call raises, the level
  is the WARNING of line 315.
\<close>

lemma logging_level_restored_on_return:
  assumes "neuron_processor_call pool self args kwargs lg = (outcome, lg')"
  shows "(\<forall>res. outcome = Inr res \<longrightarrow>
            getEffectiveLevel lg' = getEffectiveLevel lg \<and> lg_level lg' = getEffectiveLevel lg)
       \<and> (\<forall>e. outcome = Inl e \<longrightarrow> lg_level lg' = WARNING \<and> getEffectiveLevel lg' = WARNING)"
proof -
  from call_logger_cases [OF assms]
  have parent: "lg_parent_level lg' = lg_parent_level lg"
    and level: "lg_level lg' = (case outcome of Inl e \<Rightarrow> WARNING | Inr r \<Rightarrow> getEffectiveLevel lg)"
    by simp_all
  have "getEffectiveLevel lg' = getEffectiveLevel lg" if "outcome = Inr res" for res
    using that parent level by (auto simp: getEffectiveLevel_def)
  moreover have "getEffectiveLevel lg' = WARNING" if "outcome = Inl e" for e
    using that level by (simp add: getEffectiveLevel_def WARNING_def)
  ultimately show ?thesis using level by auto
qed

lemma logging_level_restored_on_return_example:
  "neuron_processor_call True (example_processor (echo []) False)
      [PNeuronList [''n0'', ''n1'', ''n2'']] Map.empty example_logger =
     (Inr (PList [PList [PNeuron ''n0''], PList [PNeuron ''n1''], PList [PNeuron ''n2'']]),
      \<lparr>lg_level = 20, lg_parent_level = 30, lg_warnings = 0\<rparr>)
   \<and> getEffectiveLevel \<lparr>lg_level = 20, lg_parent_level = 30, lg_warnings = 0\<rparr> =
       getEffectiveLevel example_logger
   \<and> neuron_processor_call True (example_processor (echo []) True)
      [PNeuronList [''n0'', ''n1'', ''n2'']] [''inplace'' \<mapsto> PBool True] example_logger =
     (Inr (PList [PList [PNeuron ''n0''], PList [PNeuron ''n1''], PList [PNeuron ''n2'']]),
      \<lparr>lg_level = 20, lg_parent_level = 30, lg_warnings = 1\<rparr>)
   \<and> getEffectiveLevel \<lparr>lg_level = 20, lg_parent_level = 30, lg_warnings = 1\<rparr> =
       getEffectiveLevel example_logger"
proof -
  have seq: "neuron_processor_call True (example_processor (echo []) False)
      [PNeuronList [''n0'', ''n1'', ''n2'']] Map.empty example_logger =
     (Inr (PList [PList [PNeuron ''n0''], PList [PNeuron ''n1''], PList [PNeuron ''n2'']]),
      \<lparr>lg_level = 20, lg_parent_level = 30, lg_warnings = 0\<rparr>)"
    by (simp add: processor_eval upt_rec)
  have par: "neuron_processor_call True (example_processor (echo []) True)
      [PNeuronList [''n0'', ''n1'', ''n2'']] [''inplace'' \<mapsto> PBool True] example_logger =
     (Inr (PList [PList [PNeuron ''n0''], PList [PNeuron ''n1''], PList [PNeuron ''n2'']]),
      \<lparr>lg_level = 20, lg_parent_level = 30, lg_warnings = 1\<rparr>)"
    by (simp add: processor_eval upt_rec)
  from logging_level_restored_on_return [OF seq] logging_level_restored_on_return [OF par]
  show ?thesis using seq par by simp
qed

text \<open>
  C2 holds on the code when the call returns. On the error paths the code misses what it
  sets out to do (line 350, "Reset logger level to previous state"): nothing catches the
  exception of an item's function, and the ImportError for the missing pool is raised
  after the level has been set, so line 350 is not reached. With the level at 20 before
  the call, a raising item and the missing pool both leave it at 30.
\<close>

theorem logging_level_not_restored_on_exception:
  "neuron_processor_call True (example_processor failing False)
      [PNeuronList [''n0'', ''n1'', ''n2'']] Map.empty example_logger =
     (Inl ValueError, \<lparr>lg_level = 30, lg_parent_level = 30, lg_warnings = 0\<rparr>)
   \<and> getEffectiveLevel example_logger = 20
   \<and> getEffectiveLevel \<lparr>lg_level = 30, lg_parent_level = 30, lg_warnings = 0\<rparr> = 30
   \<and> neuron_processor_call False (example_processor (echo []) True)
      [PNeuronList [''n0'', ''n1'', ''n2'']] Map.empty example_logger =
     (Inl ImportError, \<lparr>lg_level = 30, lg_parent_level = 30, lg_warnings = 0\<rparr>)"
  by (simp add: processor_eval upt_rec)







end
